theory Spec2Isabelle
  imports Main
begin

section \<open>Data model of the module load policy\<close>

text \<open>
  Modelled from the spec: the declaration of the enum \<open>SceSysmoduleModuleId\<close> lives in a
  header that is not among the sources. The eleven enumerants that
  \<open>load_module.cpp\<close> names are constructors of their own; every other value of the
  enum's underlying integer type, a further enumerant or a value that is no enumerant
  at all, is \<open>SCE_SYSMODULE_OTHER n\<close>, with \<open>n\<close> its number.
\<close>

datatype SceSysmoduleModuleId =
    SCE_SYSMODULE_SAS
  | SCE_SYSMODULE_PGF
  | SCE_SYSMODULE_SYSTEM_GESTURE
  | SCE_SYSMODULE_XML
  | SCE_SYSMODULE_MP4
  | SCE_SYSMODULE_ATRAC
  | SCE_SYSMODULE_AVPLAYER
  | SCE_SYSMODULE_JSON
  | SCE_SYSMODULE_HTTP
  | SCE_SYSMODULE_SSL
  | SCE_SYSMODULE_HTTPS
  | SCE_SYSMODULE_OTHER nat

text \<open>
  Modelled from the spec: the declaration of \<open>ModulesMode\<close> is not among the sources
  either. The code compares the mode with \<open>ModulesMode::MANUAL\<close> and with
  \<open>ModulesMode::AUTOMATIC\<close> only; \<open>MIXED\<close> stands for the mode that is neither.
\<close>

datatype ModulesMode = AUTOMATIC | MIXED | MANUAL

text \<open>
  \<open>emuenv.cfg.current_config.modules_mode\<close> and
  \<open>emuenv.cfg.current_config.lle_modules\<close> are the two fields of the environment that
  \<open>is_lle_module\<close> reads, \<open>kernel.loaded_sysmodules\<close> the one field that
  \<open>is_module_loaded\<close> reads. The two outer structs are extensible records: what else
  the environment and the kernel state hold is their \<open>more\<close> part.
\<close>

record CurrentConfig =
  modules_mode :: ModulesMode
  lle_modules :: "string list"

record Config =
  current_config :: CurrentConfig

record EmuEnvState =
  cfg :: Config

record KernelState =
  loaded_sysmodules :: "SceSysmoduleModuleId list"

text \<open>
  Modelled from the spec: the table \<open>sysmodule_paths\<close> is declared and filled in
  \<open>module/load_module.h\<close>, which is not among the sources. It is a parameter of the
  model, a list of entries (module id, paths of the module and of its dependencies), and
  the lookup \<open>sysmodule_paths[module_id]\<close> follows the spec's boundary contract of the
  module path registry: the ordered sequence of paths of the module, the empty sequence
  if the module is unknown.
\<close>

type_synonym SysmodulePaths = "(SceSysmoduleModuleId \<times> string list) list"

definition paths_for :: "SysmodulePaths \<Rightarrow> SceSysmoduleModuleId \<Rightarrow> string list" where
  "paths_for sysmodule_paths module_id =
     (case map_of sysmodule_paths module_id of None \<Rightarrow> [] | Some paths \<Rightarrow> paths)"

section \<open>The two queries of \<open>load_module.cpp\<close>\<close>

text \<open>
  \<open>std::find(first, last, value)\<close> over a whole container: the position of the first
  element equal to \<open>value\<close>, and the length of the container, the position of
  \<open>end()\<close>, when there is none.
\<close>

primrec std_find :: "'a list \<Rightarrow> 'a \<Rightarrow> nat" where
  "std_find [] v = 0"
| "std_find (x # xs) v = (if x = v then 0 else Suc (std_find xs v))"

text \<open>The initializer list \<open>auto_lle_modules\<close> of \<open>is_lle_module\<close>, in its order.\<close>

definition auto_lle_modules :: "SceSysmoduleModuleId list" where
  "auto_lle_modules =
     [SCE_SYSMODULE_SAS,
      SCE_SYSMODULE_PGF,
      SCE_SYSMODULE_SYSTEM_GESTURE,
      SCE_SYSMODULE_XML,
      SCE_SYSMODULE_MP4,
      SCE_SYSMODULE_ATRAC,
      SCE_SYSMODULE_AVPLAYER,
      SCE_SYSMODULE_JSON,
      SCE_SYSMODULE_HTTP,
      SCE_SYSMODULE_SSL,
      SCE_SYSMODULE_HTTPS]"

text \<open>
  The loop \<open>for (auto path : paths)\<close> of \<open>is_lle_module\<close>: it returns true at the first
  path that \<open>std::find\<close> finds in \<open>lle_modules\<close>, and falls through when the paths are
  exhausted. The entries of \<open>lle_modules\<close> are \<open>std::string\<close>s (the settings dialog
  pushes strings into the list), so \<open>std::find\<close> compares the characters.
\<close>

primrec lle_paths_loop :: "string list \<Rightarrow> string list \<Rightarrow> bool" where
  "lle_paths_loop lle [] = False"
| "lle_paths_loop lle (path # paths) =
     (if std_find lle path \<noteq> length lle then True else lle_paths_loop lle paths)"

text \<open>
  \<open>is_lle_module\<close> takes the environment by reference, so the model returns it next to
  the result. The source never assigns to it: every branch hands back the environment
  it was given.
\<close>

definition is_lle_module ::
  "SysmodulePaths \<Rightarrow> SceSysmoduleModuleId \<Rightarrow> 'a EmuEnvState_scheme
    \<Rightarrow> bool \<times> 'a EmuEnvState_scheme" where
  "is_lle_module sysmodule_paths module_id emuenv =
     (let paths = paths_for sysmodule_paths module_id;
          have_paths = (paths \<noteq> [])
      in if have_paths then
           if modules_mode (current_config (cfg emuenv)) \<noteq> MANUAL
              \<and> std_find auto_lle_modules module_id \<noteq> length auto_lle_modules
           then (True, emuenv)
           else if modules_mode (current_config (cfg emuenv)) \<noteq> AUTOMATIC
              \<and> lle_paths_loop (lle_modules (current_config (cfg emuenv))) paths
           then (True, emuenv)
           else (False, emuenv)
         else (False, emuenv))"

text \<open>
  \<open>is_module_loaded\<close> takes the kernel state by reference (the source's parameter
  \<open>kernel\<close>, here \<open>kernel_state\<close>) and only reads it.
\<close>

definition is_module_loaded ::
  "'a KernelState_scheme \<Rightarrow> SceSysmoduleModuleId \<Rightarrow> bool \<times> 'a KernelState_scheme" where
  "is_module_loaded kernel_state module_id =
     (std_find (loaded_sysmodules kernel_state) module_id
        \<noteq> length (loaded_sysmodules kernel_state),
      kernel_state)"

section \<open>Auxiliary facts\<close>

lemma std_find_end_iff: "std_find xs v \<noteq> length xs \<longleftrightarrow> v \<in> set xs"
proof (induction xs)
  case Nil
  show ?case by simp
next
  case (Cons x xs)
  show ?case
  proof (cases "x = v")
    case True
    then show ?thesis by simp
  next
    case False
    with Cons show ?thesis by simp
  qed
qed

lemma lle_paths_loop_iff:
  "lle_paths_loop lle paths \<longleftrightarrow> (\<exists>path \<in> set paths. path \<in> set lle)"
  by (induction paths) (simp_all add: std_find_end_iff)

lemma set_auto_lle_modules:
  "set auto_lle_modules =
     {SCE_SYSMODULE_SAS, SCE_SYSMODULE_PGF, SCE_SYSMODULE_SYSTEM_GESTURE,
      SCE_SYSMODULE_XML, SCE_SYSMODULE_MP4, SCE_SYSMODULE_ATRAC,
      SCE_SYSMODULE_AVPLAYER, SCE_SYSMODULE_JSON, SCE_SYSMODULE_HTTP,
      SCE_SYSMODULE_SSL, SCE_SYSMODULE_HTTPS}"
  by (simp add: auto_lle_modules_def)

text \<open>The result of \<open>is_lle_module\<close> in closed form, and its second component.\<close>

lemma is_lle_module_result:
  "fst (is_lle_module sysmodule_paths module_id emuenv) \<longleftrightarrow>
     paths_for sysmodule_paths module_id \<noteq> [] \<and>
     (modules_mode (current_config (cfg emuenv)) \<noteq> MANUAL \<and> module_id \<in> set auto_lle_modules
      \<or> modules_mode (current_config (cfg emuenv)) \<noteq> AUTOMATIC \<and>
        (\<exists>path \<in> set (paths_for sysmodule_paths module_id).
            path \<in> set (lle_modules (current_config (cfg emuenv)))))"
  by (simp add: is_lle_module_def Let_def std_find_end_iff lle_paths_loop_iff)

lemma is_lle_module_env: "snd (is_lle_module sysmodule_paths module_id emuenv) = emuenv"
  by (simp add: is_lle_module_def Let_def)

text \<open>The same for \<open>is_module_loaded\<close>.\<close>

lemma is_module_loaded_result:
  "fst (is_module_loaded kernel_state module_id)
     \<longleftrightarrow> module_id \<in> set (loaded_sysmodules kernel_state)"
  by (simp add: is_module_loaded_def std_find_end_iff)

lemma is_module_loaded_state: "snd (is_module_loaded kernel_state module_id) = kernel_state"
  by (simp add: is_module_loaded_def)

section \<open>The load-policy resolver\<close>

text \<open>
  C1. A module whose path set is empty is never an LLE module: \<open>is_lle_module\<close> returns
  false for it under every mode and every content of the user's list \<open>lle_modules\<close>,
  also when the module is one of \<open>auto_lle_modules\<close>.
\<close>

theorem is_lle_module_no_paths:
  assumes "paths_for sysmodule_paths module_id = []"
  shows "\<not> fst (is_lle_module sysmodule_paths module_id emuenv)"
  using assms by (simp add: is_lle_module_def)

theorem is_lle_module_no_paths_witness:
  "paths_for [(SCE_SYSMODULE_SSL, [])] SCE_SYSMODULE_SSL = []
   \<and> SCE_SYSMODULE_SSL \<in> set auto_lle_modules
   \<and> \<not> fst (is_lle_module [(SCE_SYSMODULE_SSL, [])] SCE_SYSMODULE_SSL
        \<lparr>cfg = \<lparr>current_config = \<lparr>modules_mode = AUTOMATIC,
           lle_modules = [''vs0/sys/external/libssl.suprx'']\<rparr>\<rparr>\<rparr>)"
proof -
  have h: "paths_for [(SCE_SYSMODULE_SSL, [])] SCE_SYSMODULE_SSL = []"
    by (simp add: paths_for_def)
  show ?thesis
    using h is_lle_module_no_paths [OF h] by (simp add: auto_lle_modules_def)
qed

text \<open>
  C2. For a module of \<open>auto_lle_modules\<close> whose path set is not empty,
  \<open>is_lle_module\<close> returns true whenever the mode is not \<open>MANUAL\<close>, whatever the
  user's list \<open>lle_modules\<close> holds.
\<close>

theorem is_lle_module_auto:
  assumes "module_id \<in> set auto_lle_modules"
    and "paths_for sysmodule_paths module_id \<noteq> []"
    and "modules_mode (current_config (cfg emuenv)) \<noteq> MANUAL"
  shows "fst (is_lle_module sysmodule_paths module_id emuenv)"
  using assms by (simp add: is_lle_module_def Let_def std_find_end_iff)

theorem is_lle_module_auto_witness:
  "SCE_SYSMODULE_SSL \<in> set auto_lle_modules
   \<and> paths_for [(SCE_SYSMODULE_SSL, [''vs0/sys/external/libssl.suprx''])] SCE_SYSMODULE_SSL \<noteq> []
   \<and> modules_mode (current_config (cfg
        \<lparr>cfg = \<lparr>current_config = \<lparr>modules_mode = AUTOMATIC, lle_modules = []\<rparr>\<rparr>\<rparr>)) \<noteq> MANUAL
   \<and> fst (is_lle_module [(SCE_SYSMODULE_SSL, [''vs0/sys/external/libssl.suprx''])]
        SCE_SYSMODULE_SSL
        \<lparr>cfg = \<lparr>current_config = \<lparr>modules_mode = AUTOMATIC, lle_modules = []\<rparr>\<rparr>\<rparr>)"
proof -
  have h1: "SCE_SYSMODULE_SSL \<in> set auto_lle_modules"
    by (simp add: auto_lle_modules_def)
  have h2: "paths_for [(SCE_SYSMODULE_SSL, [''vs0/sys/external/libssl.suprx''])]
      SCE_SYSMODULE_SSL \<noteq> []"
    by (simp add: paths_for_def)
  have h3: "modules_mode (current_config (cfg
      \<lparr>cfg = \<lparr>current_config = \<lparr>modules_mode = AUTOMATIC, lle_modules = []\<rparr>\<rparr>\<rparr>)) \<noteq> MANUAL"
    by simp
  from is_lle_module_auto [OF h1 h2 h3] h1 h2 h3 show ?thesis
    by blast
qed

text \<open>
  C3. For a module that is not in \<open>auto_lle_modules\<close> and whose path set is not empty,
  \<open>is_lle_module\<close> returns true if and only if the mode is not \<open>AUTOMATIC\<close> and at
  least one path of the module is in the user's list \<open>lle_modules\<close>.
\<close>

theorem is_lle_module_not_auto:
  assumes "module_id \<notin> set auto_lle_modules"
    and "paths_for sysmodule_paths module_id \<noteq> []"
  shows "fst (is_lle_module sysmodule_paths module_id emuenv) \<longleftrightarrow>
           modules_mode (current_config (cfg emuenv)) \<noteq> AUTOMATIC \<and>
           (\<exists>path \<in> set (paths_for sysmodule_paths module_id).
               path \<in> set (lle_modules (current_config (cfg emuenv))))"
  using assms
  by (simp add: is_lle_module_def Let_def std_find_end_iff lle_paths_loop_iff)

theorem is_lle_module_not_auto_witness:
  "SCE_SYSMODULE_OTHER 96 \<notin> set auto_lle_modules
   \<and> paths_for [(SCE_SYSMODULE_OTHER 96, [''vs0/sys/external/libfoo.suprx''])]
        (SCE_SYSMODULE_OTHER 96) \<noteq> []
   \<and> fst (is_lle_module [(SCE_SYSMODULE_OTHER 96, [''vs0/sys/external/libfoo.suprx''])]
        (SCE_SYSMODULE_OTHER 96)
        \<lparr>cfg = \<lparr>current_config = \<lparr>modules_mode = MANUAL,
           lle_modules = [''vs0/sys/external/libfoo.suprx'']\<rparr>\<rparr>\<rparr>)
   \<and> \<not> fst (is_lle_module [(SCE_SYSMODULE_OTHER 96, [''vs0/sys/external/libfoo.suprx''])]
        (SCE_SYSMODULE_OTHER 96)
        \<lparr>cfg = \<lparr>current_config = \<lparr>modules_mode = AUTOMATIC,
           lle_modules = [''vs0/sys/external/libfoo.suprx'']\<rparr>\<rparr>\<rparr>)"
proof -
  have h1: "SCE_SYSMODULE_OTHER 96 \<notin> set auto_lle_modules"
    by (simp add: auto_lle_modules_def)
  have h2: "paths_for [(SCE_SYSMODULE_OTHER 96, [''vs0/sys/external/libfoo.suprx''])]
      (SCE_SYSMODULE_OTHER 96) \<noteq> []"
    by (simp add: paths_for_def)
  have p: "paths_for [(SCE_SYSMODULE_OTHER 96, [''vs0/sys/external/libfoo.suprx''])]
      (SCE_SYSMODULE_OTHER 96) = [''vs0/sys/external/libfoo.suprx'']"
    by (simp add: paths_for_def)
  have manual: "fst (is_lle_module
      [(SCE_SYSMODULE_OTHER 96, [''vs0/sys/external/libfoo.suprx''])] (SCE_SYSMODULE_OTHER 96)
      \<lparr>cfg = \<lparr>current_config = \<lparr>modules_mode = MANUAL,
         lle_modules = [''vs0/sys/external/libfoo.suprx'']\<rparr>\<rparr>\<rparr>)"
    using is_lle_module_not_auto [OF h1 h2, of
      "\<lparr>cfg = \<lparr>current_config = \<lparr>modules_mode = MANUAL,
         lle_modules = [''vs0/sys/external/libfoo.suprx'']\<rparr>\<rparr>\<rparr>"]
    by (simp add: p)
  have automatic: "\<not> fst (is_lle_module
      [(SCE_SYSMODULE_OTHER 96, [''vs0/sys/external/libfoo.suprx''])] (SCE_SYSMODULE_OTHER 96)
      \<lparr>cfg = \<lparr>current_config = \<lparr>modules_mode = AUTOMATIC,
         lle_modules = [''vs0/sys/external/libfoo.suprx'']\<rparr>\<rparr>\<rparr>)"
    using is_lle_module_not_auto [OF h1 h2, of
      "\<lparr>cfg = \<lparr>current_config = \<lparr>modules_mode = AUTOMATIC,
         lle_modules = [''vs0/sys/external/libfoo.suprx'']\<rparr>\<rparr>\<rparr>"]
    by simp
  from h1 h2 manual automatic show ?thesis
    by blast
qed

text \<open>
  C4. In the mixed mode, the mode being neither \<open>AUTOMATIC\<close> nor \<open>MANUAL\<close>, and for a
  module whose path set is not empty, \<open>is_lle_module\<close> returns true if and only if the
  module is in \<open>auto_lle_modules\<close> or at least one of its paths is in the user's list
  \<open>lle_modules\<close>: both checks run and their results are or-ed.
\<close>

theorem is_lle_module_mixed:
  assumes "modules_mode (current_config (cfg emuenv)) \<noteq> AUTOMATIC"
    and "modules_mode (current_config (cfg emuenv)) \<noteq> MANUAL"
    and "paths_for sysmodule_paths module_id \<noteq> []"
  shows "fst (is_lle_module sysmodule_paths module_id emuenv) \<longleftrightarrow>
           module_id \<in> set auto_lle_modules \<or>
           (\<exists>path \<in> set (paths_for sysmodule_paths module_id).
               path \<in> set (lle_modules (current_config (cfg emuenv))))"
  using assms
  by (simp add: is_lle_module_def Let_def std_find_end_iff lle_paths_loop_iff)

theorem is_lle_module_mixed_witness:
  "modules_mode (current_config (cfg
        \<lparr>cfg = \<lparr>current_config = \<lparr>modules_mode = MIXED, lle_modules = [''libfoo'']\<rparr>\<rparr>\<rparr>))
      \<noteq> AUTOMATIC
   \<and> modules_mode (current_config (cfg
        \<lparr>cfg = \<lparr>current_config = \<lparr>modules_mode = MIXED, lle_modules = [''libfoo'']\<rparr>\<rparr>\<rparr>))
      \<noteq> MANUAL
   \<and> paths_for [(SCE_SYSMODULE_XML, [''libxml'']), (SCE_SYSMODULE_OTHER 96, [''libbar'', ''libfoo'']),
        (SCE_SYSMODULE_OTHER 97, [''libbaz''])] (SCE_SYSMODULE_OTHER 96) \<noteq> []
   \<and> fst (is_lle_module [(SCE_SYSMODULE_XML, [''libxml'']),
        (SCE_SYSMODULE_OTHER 96, [''libbar'', ''libfoo'']), (SCE_SYSMODULE_OTHER 97, [''libbaz''])]
        (SCE_SYSMODULE_OTHER 96)
        \<lparr>cfg = \<lparr>current_config = \<lparr>modules_mode = MIXED, lle_modules = [''libfoo'']\<rparr>\<rparr>\<rparr>)"
proof -
  let ?reg = "[(SCE_SYSMODULE_XML, [''libxml'']),
    (SCE_SYSMODULE_OTHER 96, [''libbar'', ''libfoo'']), (SCE_SYSMODULE_OTHER 97, [''libbaz''])]"
  let ?env = "\<lparr>cfg = \<lparr>current_config = \<lparr>modules_mode = MIXED, lle_modules = [''libfoo'']\<rparr>\<rparr>\<rparr>"
  have h1: "modules_mode (current_config (cfg ?env)) \<noteq> AUTOMATIC"
    by simp
  have h2: "modules_mode (current_config (cfg ?env)) \<noteq> MANUAL"
    by simp
  have p: "paths_for ?reg (SCE_SYSMODULE_OTHER 96) = [''libbar'', ''libfoo'']"
    by (simp add: paths_for_def)
  have h3: "paths_for ?reg (SCE_SYSMODULE_OTHER 96) \<noteq> []"
    by (simp add: p)
  have "fst (is_lle_module ?reg (SCE_SYSMODULE_OTHER 96) ?env)"
    using is_lle_module_mixed [OF h1 h2 h3] by (simp add: p)
  with h1 h2 h3 show ?thesis
    by blast
qed

text \<open>
  C5. \<open>is_lle_module\<close> returns a boolean on every input: each of its loops runs over
  a finite list, and the model is a total function by structural recursion. For a module
  id that the table of paths does not know, the lookup gives the empty sequence and
  \<open>is_lle_module\<close> returns false, leaving the environment as it was.
\<close>

theorem is_lle_module_total_unknown:
  "(\<exists>result. is_lle_module sysmodule_paths module_id emuenv = (result, emuenv))
   \<and> (module_id \<notin> fst ` set sysmodule_paths \<longrightarrow>
        paths_for sysmodule_paths module_id = []
        \<and> is_lle_module sysmodule_paths module_id emuenv = (False, emuenv))"
proof (intro conjI impI)
  have "is_lle_module sysmodule_paths module_id emuenv =
      (fst (is_lle_module sysmodule_paths module_id emuenv),
       snd (is_lle_module sysmodule_paths module_id emuenv))"
    by simp
  then have "is_lle_module sysmodule_paths module_id emuenv =
      (fst (is_lle_module sysmodule_paths module_id emuenv), emuenv)"
    by (simp only: is_lle_module_env)
  then show "\<exists>result. is_lle_module sysmodule_paths module_id emuenv = (result, emuenv)"
    by (rule exI)
next
  assume "module_id \<notin> fst ` set sysmodule_paths"
  then have "map_of sysmodule_paths module_id = None"
    by (simp add: map_of_eq_None_iff)
  then show "paths_for sysmodule_paths module_id = []"
    by (simp add: paths_for_def)
  then show "is_lle_module sysmodule_paths module_id emuenv = (False, emuenv)"
    by (simp add: is_lle_module_def)
qed

theorem is_lle_module_total_unknown_witness:
  "SCE_SYSMODULE_OTHER 4660
     \<notin> fst ` set [(SCE_SYSMODULE_SSL, [''libssl'']), (SCE_SYSMODULE_OTHER 96, [''libfoo''])]
   \<and> paths_for [(SCE_SYSMODULE_SSL, [''libssl'']), (SCE_SYSMODULE_OTHER 96, [''libfoo''])]
        (SCE_SYSMODULE_OTHER 4660) = []
   \<and> is_lle_module [(SCE_SYSMODULE_SSL, [''libssl'']), (SCE_SYSMODULE_OTHER 96, [''libfoo''])]
        (SCE_SYSMODULE_OTHER 4660)
        \<lparr>cfg = \<lparr>current_config = \<lparr>modules_mode = MIXED, lle_modules = [''libfoo'']\<rparr>\<rparr>\<rparr>
      = (False, \<lparr>cfg = \<lparr>current_config = \<lparr>modules_mode = MIXED, lle_modules = [''libfoo'']\<rparr>\<rparr>\<rparr>)"
proof -
  let ?reg = "[(SCE_SYSMODULE_SSL, [''libssl'']), (SCE_SYSMODULE_OTHER 96, [''libfoo''])]"
  let ?env = "\<lparr>cfg = \<lparr>current_config = \<lparr>modules_mode = MIXED, lle_modules = [''libfoo'']\<rparr>\<rparr>\<rparr>"
  have h: "SCE_SYSMODULE_OTHER 4660 \<notin> fst ` set ?reg"
    by simp
  with is_lle_module_total_unknown [of ?reg "SCE_SYSMODULE_OTHER 4660" ?env]
  show ?thesis
    by blast
qed

section \<open>The loaded-module tracker\<close>

text \<open>
  C6. \<open>is_module_loaded\<close> returns true if and only if the module id is in
  \<open>loaded_sysmodules\<close>, and it leaves the kernel state as it was. So it returns false
  when \<open>loaded_sysmodules\<close> is empty, before any load and again after the list has been
  cleared, and true once the module id has been put into the list, at whatever position.
\<close>

theorem is_module_loaded_membership:
  "(fst (is_module_loaded kernel_state module_id)
      \<longleftrightarrow> module_id \<in> set (loaded_sysmodules kernel_state))
   \<and> snd (is_module_loaded kernel_state module_id) = kernel_state
   \<and> \<not> fst (is_module_loaded (kernel_state\<lparr>loaded_sysmodules := []\<rparr>) module_id)
   \<and> fst (is_module_loaded
        (kernel_state\<lparr>loaded_sysmodules := before @ module_id # after\<rparr>) module_id)
   \<and> \<not> fst (is_module_loaded
        ((kernel_state\<lparr>loaded_sysmodules := before @ module_id # after\<rparr>)
           \<lparr>loaded_sysmodules := []\<rparr>) module_id)"
  by (simp add: is_module_loaded_result is_module_loaded_state)

section \<open>The automatic list and determinism\<close>

text \<open>
  C7. \<open>auto_lle_modules\<close> is a constant: it takes nothing from the configuration or
  from the user. It holds exactly the eleven modules SAS, PGF, SYSTEM_GESTURE, XML, MP4,
  ATRAC, AVPLAYER, JSON, HTTP, SSL and HTTPS, each once; and in the mode \<open>AUTOMATIC\<close>
  these eleven are exactly the modules with paths for which \<open>is_lle_module\<close> returns
  true, whatever the user's list holds.
\<close>

theorem auto_lle_modules_exact:
  "set auto_lle_modules =
     {SCE_SYSMODULE_SAS, SCE_SYSMODULE_PGF, SCE_SYSMODULE_SYSTEM_GESTURE,
      SCE_SYSMODULE_XML, SCE_SYSMODULE_MP4, SCE_SYSMODULE_ATRAC,
      SCE_SYSMODULE_AVPLAYER, SCE_SYSMODULE_JSON, SCE_SYSMODULE_HTTP,
      SCE_SYSMODULE_SSL, SCE_SYSMODULE_HTTPS}
   \<and> distinct auto_lle_modules
   \<and> length auto_lle_modules = 11
   \<and> (paths_for sysmodule_paths module_id \<noteq> []
        \<and> modules_mode (current_config (cfg emuenv)) = AUTOMATIC \<longrightarrow>
      (fst (is_lle_module sysmodule_paths module_id emuenv) \<longleftrightarrow>
         module_id \<in>
           {SCE_SYSMODULE_SAS, SCE_SYSMODULE_PGF, SCE_SYSMODULE_SYSTEM_GESTURE,
            SCE_SYSMODULE_XML, SCE_SYSMODULE_MP4, SCE_SYSMODULE_ATRAC,
            SCE_SYSMODULE_AVPLAYER, SCE_SYSMODULE_JSON, SCE_SYSMODULE_HTTP,
            SCE_SYSMODULE_SSL, SCE_SYSMODULE_HTTPS}))"
proof (intro conjI impI)
  show "set auto_lle_modules =
     {SCE_SYSMODULE_SAS, SCE_SYSMODULE_PGF, SCE_SYSMODULE_SYSTEM_GESTURE,
      SCE_SYSMODULE_XML, SCE_SYSMODULE_MP4, SCE_SYSMODULE_ATRAC,
      SCE_SYSMODULE_AVPLAYER, SCE_SYSMODULE_JSON, SCE_SYSMODULE_HTTP,
      SCE_SYSMODULE_SSL, SCE_SYSMODULE_HTTPS}"
    by (rule set_auto_lle_modules)
  show "distinct auto_lle_modules"
    by (simp add: auto_lle_modules_def)
  show "length auto_lle_modules = 11"
    by (simp add: auto_lle_modules_def)
next
  assume "paths_for sysmodule_paths module_id \<noteq> []
        \<and> modules_mode (current_config (cfg emuenv)) = AUTOMATIC"
  then have "fst (is_lle_module sysmodule_paths module_id emuenv)
      \<longleftrightarrow> module_id \<in> set auto_lle_modules"
    by (simp add: is_lle_module_result)
  then show "fst (is_lle_module sysmodule_paths module_id emuenv) \<longleftrightarrow>
         module_id \<in>
           {SCE_SYSMODULE_SAS, SCE_SYSMODULE_PGF, SCE_SYSMODULE_SYSTEM_GESTURE,
            SCE_SYSMODULE_XML, SCE_SYSMODULE_MP4, SCE_SYSMODULE_ATRAC,
            SCE_SYSMODULE_AVPLAYER, SCE_SYSMODULE_JSON, SCE_SYSMODULE_HTTP,
            SCE_SYSMODULE_SSL, SCE_SYSMODULE_HTTPS}"
    by (simp only: set_auto_lle_modules)
qed

theorem auto_lle_modules_exact_witness:
  "paths_for [(SCE_SYSMODULE_JSON, [''libjson'']), (SCE_SYSMODULE_OTHER 96, [''libfoo''])]
      SCE_SYSMODULE_JSON \<noteq> []
   \<and> fst (is_lle_module
        [(SCE_SYSMODULE_JSON, [''libjson'']), (SCE_SYSMODULE_OTHER 96, [''libfoo''])]
        SCE_SYSMODULE_JSON
        \<lparr>cfg = \<lparr>current_config = \<lparr>modules_mode = AUTOMATIC, lle_modules = [''libfoo'']\<rparr>\<rparr>\<rparr>)
   \<and> paths_for [(SCE_SYSMODULE_JSON, [''libjson'']), (SCE_SYSMODULE_OTHER 96, [''libfoo''])]
      (SCE_SYSMODULE_OTHER 96) \<noteq> []
   \<and> \<not> fst (is_lle_module
        [(SCE_SYSMODULE_JSON, [''libjson'']), (SCE_SYSMODULE_OTHER 96, [''libfoo''])]
        (SCE_SYSMODULE_OTHER 96)
        \<lparr>cfg = \<lparr>current_config = \<lparr>modules_mode = AUTOMATIC, lle_modules = [''libfoo'']\<rparr>\<rparr>\<rparr>)"
proof -
  let ?reg = "[(SCE_SYSMODULE_JSON, [''libjson'']), (SCE_SYSMODULE_OTHER 96, [''libfoo''])]"
  let ?env = "\<lparr>cfg = \<lparr>current_config = \<lparr>modules_mode = AUTOMATIC, lle_modules = [''libfoo'']\<rparr>\<rparr>\<rparr>"
  have json: "paths_for ?reg SCE_SYSMODULE_JSON \<noteq> []"
    by (simp add: paths_for_def)
  have other: "paths_for ?reg (SCE_SYSMODULE_OTHER 96) \<noteq> []"
    by (simp add: paths_for_def)
  have "fst (is_lle_module ?reg SCE_SYSMODULE_JSON ?env)"
    using auto_lle_modules_exact [of ?reg SCE_SYSMODULE_JSON ?env] json by simp
  moreover have "\<not> fst (is_lle_module ?reg (SCE_SYSMODULE_OTHER 96) ?env)"
    using auto_lle_modules_exact [of ?reg "SCE_SYSMODULE_OTHER 96" ?env] other by simp
  ultimately show ?thesis
    using json other by blast
qed

text \<open>
  C8. Both queries are deterministic and change nothing. The result of
  \<open>is_lle_module\<close> is a function of the module id, of the mode, of the user's list and
  of the module's paths, and the result of \<open>is_module_loaded\<close> one of the module id and
  of \<open>loaded_sysmodules\<close>: calls that agree on these return the same boolean. Each call
  hands back the state it was given, so a second call on the state that the first one
  left returns what the first one returned.
\<close>

theorem queries_deterministic:
  assumes "modules_mode (current_config (cfg emuenv1)) = modules_mode (current_config (cfg emuenv2))"
    and "lle_modules (current_config (cfg emuenv1)) = lle_modules (current_config (cfg emuenv2))"
    and "paths_for sysmodule_paths1 module_id = paths_for sysmodule_paths2 module_id"
    and "loaded_sysmodules kernel1 = loaded_sysmodules kernel2"
  shows "fst (is_lle_module sysmodule_paths1 module_id emuenv1)
           = fst (is_lle_module sysmodule_paths2 module_id emuenv2)
       \<and> fst (is_module_loaded kernel1 module_id) = fst (is_module_loaded kernel2 module_id)
       \<and> snd (is_lle_module sysmodule_paths1 module_id emuenv1) = emuenv1
       \<and> snd (is_module_loaded kernel1 module_id) = kernel1
       \<and> is_lle_module sysmodule_paths1 module_id
            (snd (is_lle_module sysmodule_paths1 module_id emuenv1))
           = is_lle_module sysmodule_paths1 module_id emuenv1
       \<and> is_module_loaded (snd (is_module_loaded kernel1 module_id)) module_id
           = is_module_loaded kernel1 module_id"
proof (intro conjI)
  from assms(1-3)
  show "fst (is_lle_module sysmodule_paths1 module_id emuenv1)
      = fst (is_lle_module sysmodule_paths2 module_id emuenv2)"
    by (simp add: is_lle_module_result)
  from assms(4)
  show "fst (is_module_loaded kernel1 module_id) = fst (is_module_loaded kernel2 module_id)"
    by (simp add: is_module_loaded_result)
  show env: "snd (is_lle_module sysmodule_paths1 module_id emuenv1) = emuenv1"
    by (rule is_lle_module_env)
  show ker: "snd (is_module_loaded kernel1 module_id) = kernel1"
    by (rule is_module_loaded_state)
  show "is_lle_module sysmodule_paths1 module_id
      (snd (is_lle_module sysmodule_paths1 module_id emuenv1))
      = is_lle_module sysmodule_paths1 module_id emuenv1"
    by (simp only: env)
  show "is_module_loaded (snd (is_module_loaded kernel1 module_id)) module_id
      = is_module_loaded kernel1 module_id"
    by (simp only: ker)
qed

theorem queries_deterministic_witness:
  "fst (is_lle_module [(SCE_SYSMODULE_SSL, [''libssl''])] SCE_SYSMODULE_SSL
        \<lparr>cfg = \<lparr>current_config = \<lparr>modules_mode = MANUAL, lle_modules = [''libssl'']\<rparr>\<rparr>\<rparr>)
     = fst (is_lle_module
        [(SCE_SYSMODULE_OTHER 96, [''libfoo'']), (SCE_SYSMODULE_SSL, [''libssl''])]
        SCE_SYSMODULE_SSL
        \<lparr>cfg = \<lparr>current_config = \<lparr>modules_mode = MANUAL, lle_modules = [''libssl'']\<rparr>\<rparr>,
         \<dots> = True\<rparr>)
   \<and> fst (is_module_loaded \<lparr>loaded_sysmodules = [SCE_SYSMODULE_XML, SCE_SYSMODULE_SSL]\<rparr>
        SCE_SYSMODULE_SSL)
     = fst (is_module_loaded
        \<lparr>loaded_sysmodules = [SCE_SYSMODULE_XML, SCE_SYSMODULE_SSL], \<dots> = (5::nat)\<rparr>
        SCE_SYSMODULE_SSL)
   \<and> is_module_loaded \<lparr>loaded_sysmodules = [SCE_SYSMODULE_XML, SCE_SYSMODULE_SSL]\<rparr>
        SCE_SYSMODULE_SSL
     = (True, \<lparr>loaded_sysmodules = [SCE_SYSMODULE_XML, SCE_SYSMODULE_SSL]\<rparr>)"
proof -
  let ?reg1 = "[(SCE_SYSMODULE_SSL, [''libssl''])]"
  let ?reg2 = "[(SCE_SYSMODULE_OTHER 96, [''libfoo'']), (SCE_SYSMODULE_SSL, [''libssl''])]"
  let ?env1 = "\<lparr>cfg = \<lparr>current_config = \<lparr>modules_mode = MANUAL, lle_modules = [''libssl'']\<rparr>\<rparr>\<rparr>"
  let ?env2 = "\<lparr>cfg = \<lparr>current_config = \<lparr>modules_mode = MANUAL, lle_modules = [''libssl'']\<rparr>\<rparr>,
    \<dots> = True\<rparr>"
  let ?k1 = "\<lparr>loaded_sysmodules = [SCE_SYSMODULE_XML, SCE_SYSMODULE_SSL]\<rparr>"
  let ?k2 = "\<lparr>loaded_sysmodules = [SCE_SYSMODULE_XML, SCE_SYSMODULE_SSL], \<dots> = (5::nat)\<rparr>"
  have h1: "modules_mode (current_config (cfg ?env1)) = modules_mode (current_config (cfg ?env2))"
    by simp
  have h2: "lle_modules (current_config (cfg ?env1)) = lle_modules (current_config (cfg ?env2))"
    by simp
  have h3: "paths_for ?reg1 SCE_SYSMODULE_SSL = paths_for ?reg2 SCE_SYSMODULE_SSL"
    by (simp add: paths_for_def)
  have h4: "loaded_sysmodules ?k1 = loaded_sysmodules ?k2"
    by simp
  have loaded: "is_module_loaded ?k1 SCE_SYSMODULE_SSL = (True, ?k1)"
    by (simp add: is_module_loaded_def)
  from queries_deterministic [OF h1 h2 h3 h4] loaded show ?thesis
    by blast
qed

section \<open>The user's list in the resolver\<close>

text \<open>
  C9. For a module of \<open>auto_lle_modules\<close> whose path set is not empty, in the mode
  \<open>MANUAL\<close>, \<open>is_lle_module\<close> returns true if and only if at least one path of the
  module is in the user's list \<open>lle_modules\<close>: being in \<open>auto_lle_modules\<close> gives
  nothing in this mode, and the module can still be chosen through the list.
\<close>

theorem is_lle_module_auto_manual:
  assumes "module_id \<in> set auto_lle_modules"
    and "paths_for sysmodule_paths module_id \<noteq> []"
    and "modules_mode (current_config (cfg emuenv)) = MANUAL"
  shows "fst (is_lle_module sysmodule_paths module_id emuenv) \<longleftrightarrow>
           (\<exists>path \<in> set (paths_for sysmodule_paths module_id).
               path \<in> set (lle_modules (current_config (cfg emuenv))))"
  using assms
  by (simp add: is_lle_module_def Let_def lle_paths_loop_iff)

theorem is_lle_module_auto_manual_witness:
  "SCE_SYSMODULE_SSL \<in> set auto_lle_modules
   \<and> paths_for [(SCE_SYSMODULE_SSL, [''libssl''])] SCE_SYSMODULE_SSL \<noteq> []
   \<and> \<not> fst (is_lle_module [(SCE_SYSMODULE_SSL, [''libssl''])] SCE_SYSMODULE_SSL
        \<lparr>cfg = \<lparr>current_config = \<lparr>modules_mode = MANUAL, lle_modules = [''libhttp'']\<rparr>\<rparr>\<rparr>)
   \<and> fst (is_lle_module [(SCE_SYSMODULE_SSL, [''libssl''])] SCE_SYSMODULE_SSL
        \<lparr>cfg = \<lparr>current_config = \<lparr>modules_mode = MANUAL,
           lle_modules = [''libhttp'', ''libssl'']\<rparr>\<rparr>\<rparr>)"
proof -
  let ?reg = "[(SCE_SYSMODULE_SSL, [''libssl''])]"
  have h1: "SCE_SYSMODULE_SSL \<in> set auto_lle_modules"
    by (simp add: auto_lle_modules_def)
  have p: "paths_for ?reg SCE_SYSMODULE_SSL = [''libssl'']"
    by (simp add: paths_for_def)
  have h2: "paths_for ?reg SCE_SYSMODULE_SSL \<noteq> []"
    by (simp add: p)
  have absent: "\<not> fst (is_lle_module ?reg SCE_SYSMODULE_SSL
      \<lparr>cfg = \<lparr>current_config = \<lparr>modules_mode = MANUAL, lle_modules = [''libhttp'']\<rparr>\<rparr>\<rparr>)"
    using is_lle_module_auto_manual [OF h1 h2, of
      "\<lparr>cfg = \<lparr>current_config = \<lparr>modules_mode = MANUAL, lle_modules = [''libhttp'']\<rparr>\<rparr>\<rparr>"]
    by (simp add: p)
  have present: "fst (is_lle_module ?reg SCE_SYSMODULE_SSL
      \<lparr>cfg = \<lparr>current_config = \<lparr>modules_mode = MANUAL,
         lle_modules = [''libhttp'', ''libssl'']\<rparr>\<rparr>\<rparr>)"
    using is_lle_module_auto_manual [OF h1 h2, of
      "\<lparr>cfg = \<lparr>current_config = \<lparr>modules_mode = MANUAL,
         lle_modules = [''libhttp'', ''libssl'']\<rparr>\<rparr>\<rparr>"]
    by (simp add: p)
  from h1 h2 absent present show ?thesis
    by blast
qed

text \<open>
  C10. \<open>is_lle_module\<close> is monotone in the user's list \<open>lle_modules\<close>: with the module,
  the mode and the table of paths fixed, if it returns true for one list it returns true
  for every list that holds all entries of the first; and two lists with the same
  entries, in whatever order and however often repeated, give the same result.
\<close>

theorem is_lle_module_allow_list_monotone:
  assumes "modules_mode (current_config (cfg emuenv1)) = modules_mode (current_config (cfg emuenv2))"
  shows "(set (lle_modules (current_config (cfg emuenv1)))
            \<subseteq> set (lle_modules (current_config (cfg emuenv2))) \<longrightarrow>
          fst (is_lle_module sysmodule_paths module_id emuenv1) \<longrightarrow>
          fst (is_lle_module sysmodule_paths module_id emuenv2))
       \<and> (set (lle_modules (current_config (cfg emuenv1)))
            = set (lle_modules (current_config (cfg emuenv2))) \<longrightarrow>
          fst (is_lle_module sysmodule_paths module_id emuenv1)
            = fst (is_lle_module sysmodule_paths module_id emuenv2))"
proof (intro conjI impI)
  assume sub: "set (lle_modules (current_config (cfg emuenv1)))
      \<subseteq> set (lle_modules (current_config (cfg emuenv2)))"
    and r1: "fst (is_lle_module sysmodule_paths module_id emuenv1)"
  from r1 have paths: "paths_for sysmodule_paths module_id \<noteq> []"
    by (simp add: is_lle_module_result)
  from r1 have "modules_mode (current_config (cfg emuenv1)) \<noteq> MANUAL
        \<and> module_id \<in> set auto_lle_modules
      \<or> modules_mode (current_config (cfg emuenv1)) \<noteq> AUTOMATIC
        \<and> (\<exists>path \<in> set (paths_for sysmodule_paths module_id).
              path \<in> set (lle_modules (current_config (cfg emuenv1))))"
    by (simp add: is_lle_module_result)
  then show "fst (is_lle_module sysmodule_paths module_id emuenv2)"
  proof
    assume "modules_mode (current_config (cfg emuenv1)) \<noteq> MANUAL
        \<and> module_id \<in> set auto_lle_modules"
    with assms paths show ?thesis
      by (simp add: is_lle_module_result)
  next
    assume user: "modules_mode (current_config (cfg emuenv1)) \<noteq> AUTOMATIC
        \<and> (\<exists>path \<in> set (paths_for sysmodule_paths module_id).
              path \<in> set (lle_modules (current_config (cfg emuenv1))))"
    then obtain path where "path \<in> set (paths_for sysmodule_paths module_id)"
      and "path \<in> set (lle_modules (current_config (cfg emuenv1)))"
      by blast
    with sub have "\<exists>path \<in> set (paths_for sysmodule_paths module_id).
        path \<in> set (lle_modules (current_config (cfg emuenv2)))"
      by blast
    with user assms paths show ?thesis
      by (simp add: is_lle_module_result)
  qed
next
  assume "set (lle_modules (current_config (cfg emuenv1)))
      = set (lle_modules (current_config (cfg emuenv2)))"
  with assms show "fst (is_lle_module sysmodule_paths module_id emuenv1)
      = fst (is_lle_module sysmodule_paths module_id emuenv2)"
    by (simp add: is_lle_module_result)
qed

theorem is_lle_module_allow_list_monotone_witness:
  "set [''libfoo''] \<subseteq> set [''libbar'', ''libfoo'', ''libbar'']
   \<and> fst (is_lle_module [(SCE_SYSMODULE_OTHER 96, [''libfoo''])] (SCE_SYSMODULE_OTHER 96)
        \<lparr>cfg = \<lparr>current_config = \<lparr>modules_mode = MANUAL, lle_modules = [''libfoo'']\<rparr>\<rparr>\<rparr>)
   \<and> fst (is_lle_module [(SCE_SYSMODULE_OTHER 96, [''libfoo''])] (SCE_SYSMODULE_OTHER 96)
        \<lparr>cfg = \<lparr>current_config = \<lparr>modules_mode = MANUAL,
           lle_modules = [''libbar'', ''libfoo'', ''libbar'']\<rparr>\<rparr>\<rparr>)
   \<and> set [''libfoo'', ''libbar''] = set [''libbar'', ''libfoo'', ''libbar'']
   \<and> fst (is_lle_module [(SCE_SYSMODULE_OTHER 96, [''libfoo''])] (SCE_SYSMODULE_OTHER 96)
        \<lparr>cfg = \<lparr>current_config = \<lparr>modules_mode = MANUAL,
           lle_modules = [''libfoo'', ''libbar'']\<rparr>\<rparr>\<rparr>)
      = fst (is_lle_module [(SCE_SYSMODULE_OTHER 96, [''libfoo''])] (SCE_SYSMODULE_OTHER 96)
        \<lparr>cfg = \<lparr>current_config = \<lparr>modules_mode = MANUAL,
           lle_modules = [''libbar'', ''libfoo'', ''libbar'']\<rparr>\<rparr>\<rparr>)"
proof -
  let ?reg = "[(SCE_SYSMODULE_OTHER 96, [''libfoo''])]"
  let ?small = "\<lparr>cfg = \<lparr>current_config = \<lparr>modules_mode = MANUAL, lle_modules = [''libfoo'']\<rparr>\<rparr>\<rparr>"
  let ?perm = "\<lparr>cfg = \<lparr>current_config = \<lparr>modules_mode = MANUAL,
    lle_modules = [''libfoo'', ''libbar'']\<rparr>\<rparr>\<rparr>"
  let ?large = "\<lparr>cfg = \<lparr>current_config = \<lparr>modules_mode = MANUAL,
    lle_modules = [''libbar'', ''libfoo'', ''libbar'']\<rparr>\<rparr>\<rparr>"
  have sub: "set [''libfoo''] \<subseteq> set [''libbar'', ''libfoo'', ''libbar'']"
    by simp
  have same: "set [''libfoo'', ''libbar''] = set [''libbar'', ''libfoo'', ''libbar'']"
    by auto
  have small: "fst (is_lle_module ?reg (SCE_SYSMODULE_OTHER 96) ?small)"
    by (simp add: is_lle_module_def paths_for_def auto_lle_modules_def)
  have large: "fst (is_lle_module ?reg (SCE_SYSMODULE_OTHER 96) ?large)"
    using is_lle_module_allow_list_monotone [of ?small ?large ?reg "SCE_SYSMODULE_OTHER 96"]
      sub small by simp
  have eq: "fst (is_lle_module ?reg (SCE_SYSMODULE_OTHER 96) ?perm)
      = fst (is_lle_module ?reg (SCE_SYSMODULE_OTHER 96) ?large)"
    using is_lle_module_allow_list_monotone [of ?perm ?large ?reg "SCE_SYSMODULE_OTHER 96"]
      same by simp
  from sub small large same eq show ?thesis
    by blast
qed

end
